theory Spec2Isabelle
  imports Main "HOL-Library.AList"
begin

section \<open>JavaScript values\<close>

text \<open>
  The session code of \<^verbatim>\<open>user.ts\<close> works on untyped JSON data: token responses, stored
  snapshots and server attributes are whatever \<^verbatim>\<open>JSON.parse\<close> returned. Values are
  therefore modelled dynamically. Numbers are the integers together with \<^verbatim>\<open>NaN\<close>: the
  arithmetic of doubles is exact on integers below \<open>2^53\<close>, which holds the seconds of an
  \<^verbatim>\<open>exp\<close> claim and the milliseconds of \<^verbatim>\<open>Date.now()\<close>; fractions and infinities are left
  out. An object is the list of its own enumerable properties in enumeration order, and so is
  an instance of the transport class of \<^verbatim>\<open>api.ts\<close>, whose methods are on its prototype.
\<close>

datatype jsnum = Fin int | NaN

datatype jsval =
    Undefined
  | Null
  | Bool bool
  | Num jsnum
  | Str string
  | Arr "jsval list"
  | Obj "(string \<times> jsval) list"

type_synonym obj = "(string \<times> jsval) list"

text \<open>The error classes of \<^verbatim>\<open>api.ts\<close>, and every other error object by name and message.\<close>

datatype jserror =
    JSError string jsval
  | HTTPError jsval jsval
  | TextHTTPError jsval jsval jsval
  | JSONHTTPError jsval jsval jsval

fun error_name :: "jserror \<Rightarrow> string" where
  "error_name (JSError n m) = n"
| "error_name (HTTPError m s) = ''HTTPError''"
| "error_name (TextHTTPError m s d) = ''TextHTTPError''"
| "error_name (JSONHTTPError m s j) = ''JSONHTTPError''"

fun error_message :: "jserror \<Rightarrow> jsval" where
  "error_message (JSError n m) = m"
| "error_message (HTTPError m s) = m"
| "error_message (TextHTTPError m s d) = m"
| "error_message (JSONHTTPError m s j) = m"

fun set_message :: "jserror \<Rightarrow> jsval \<Rightarrow> jserror" where
  "set_message (JSError n m) v = JSError n v"
| "set_message (HTTPError m s) v = HTTPError v s"
| "set_message (TextHTTPError m s d) v = TextHTTPError v s d"
| "set_message (JSONHTTPError m s j) v = JSONHTTPError v s j"

fun truthy :: "jsval \<Rightarrow> bool" where
  "truthy Undefined = False"
| "truthy Null = False"
| "truthy (Bool b) = b"
| "truthy (Num (Fin n)) = (n \<noteq> 0)"
| "truthy (Num NaN) = False"
| "truthy (Str s) = (s \<noteq> [])"
| "truthy (Arr xs) = True"
| "truthy (Obj kvs) = True"

fun num_sub :: "jsnum \<Rightarrow> jsnum \<Rightarrow> jsnum" where
  "num_sub (Fin a) (Fin b) = Fin (a - b)"
| "num_sub a b = NaN"

fun num_mul :: "jsnum \<Rightarrow> jsnum \<Rightarrow> jsnum" where
  "num_mul (Fin a) (Fin b) = Fin (a * b)"
| "num_mul a b = NaN"

fun num_less :: "jsnum \<Rightarrow> jsnum \<Rightarrow> bool" where
  "num_less (Fin a) (Fin b) = (a < b)"
| "num_less a b = False"

section \<open>The runtime\<close>

text \<open>
  What the code calls but does not define is a parameter of the model: the base64 decoders
  (\<^verbatim>\<open>atob\<close> is absent where \<^verbatim>\<open>typeof atob\<close> is not \<^verbatim>\<open>'function'\<close>), the text decoder
  (\<^verbatim>\<open>Uint8Array.from\<close> followed by \<^verbatim>\<open>new TextDecoder().decode\<close>, which throws where
  \<^verbatim>\<open>TextDecoder\<close> is not defined), \<^verbatim>\<open>JSON.parse\<close> and \<^verbatim>\<open>JSON.stringify\<close>, the conversions
  of strings and objects to numbers and of numbers and objects to strings, and the text of the
  engine's own \<^verbatim>\<open>TypeError\<close> for a property read from or called on a value without it.
\<close>

record platform =
  atob :: "(string \<Rightarrow> jserror + string) option"
  Buffer_from_base64 :: "string \<Rightarrow> jserror + string"
  TextDecoder_decode :: "string \<Rightarrow> jserror + string"
  JSON_parse :: "string \<Rightarrow> jserror + jsval"
  JSON_stringify :: "jsval \<Rightarrow> string"
  ToNumber_other :: "jsval \<Rightarrow> jsnum"
  ToString_other :: "jsval \<Rightarrow> string"
  TypeError_message :: "string \<Rightarrow> string"

definition TypeError :: "platform \<Rightarrow> string \<Rightarrow> jserror" where
  "TypeError P k = JSError ''TypeError'' (Str (TypeError_message P k))"

fun ToNumber :: "platform \<Rightarrow> jsval \<Rightarrow> jsnum" where
  "ToNumber P Undefined = NaN"
| "ToNumber P Null = Fin 0"
| "ToNumber P (Bool b) = Fin (if b then 1 else 0)"
| "ToNumber P (Num n) = n"
| "ToNumber P v = ToNumber_other P v"

fun ToString :: "platform \<Rightarrow> jsval \<Rightarrow> string" where
  "ToString P Undefined = ''undefined''"
| "ToString P Null = ''null''"
| "ToString P (Bool b) = (if b then ''true'' else ''false'')"
| "ToString P (Str s) = s"
| "ToString P v = ToString_other P v"

text \<open>\<^verbatim>\<open>Error.prototype.toString\<close>, which a template literal applies to an error.\<close>

definition error_toString :: "platform \<Rightarrow> jserror \<Rightarrow> string" where
  "error_toString P e =
     (let name = error_name e;
          msg = (if error_message e = Undefined then [] else ToString P (error_message e))
      in if name = [] then msg
         else if msg = [] then name
         else name @ '': '' @ msg)"

text \<open>
  Reading a property whose name no prototype defines (\<^verbatim>\<open>token.expires_at\<close>,
  \<^verbatim>\<open>claims.exp\<close>, \<^verbatim>\<open>data.url\<close>, \<^verbatim>\<open>error.json.msg\<close>) from a value that is neither
  \<^verbatim>\<open>null\<close> nor \<^verbatim>\<open>undefined\<close>; reading from those two throws and is a case at the call.
\<close>

fun get :: "jsval \<Rightarrow> string \<Rightarrow> jsval" where
  "get (Obj kvs) k = (case map_of kvs k of Some v \<Rightarrow> v | None \<Rightarrow> Undefined)"
| "get v k = Undefined"

definition nullish :: "jsval \<Rightarrow> bool" where
  "nullish v = (v = Undefined \<or> v = Null)"

definition member :: "platform \<Rightarrow> jsval \<Rightarrow> string \<Rightarrow> jserror + jsval" where
  "member P v k = (if nullish v then Inl (TypeError P k) else Inr (get v k))"

definition bindE :: "('e + 'a) \<Rightarrow> ('a \<Rightarrow> 'e + 'b) \<Rightarrow> 'e + 'b" where
  "bindE m f = (case m of Inl e \<Rightarrow> Inl e | Inr x \<Rightarrow> f x)"

section \<open>Token codec\<close>

text \<open>\<^verbatim>\<open>str.split('.')\<close> and indexing the result.\<close>

fun split_on :: "char \<Rightarrow> string \<Rightarrow> string list" where
  "split_on d [] = [[]]"
| "split_on d (c # cs) =
     (if c = d then [] # split_on d cs
      else (case split_on d cs of
              [] \<Rightarrow> [[c]]
            | s # ss \<Rightarrow> (c # s) # ss))"

definition split :: "platform \<Rightarrow> jsval \<Rightarrow> char \<Rightarrow> jserror + string list" where
  "split P v d = (case v of Str s \<Rightarrow> Inr (split_on d s) | _ \<Rightarrow> Inl (TypeError P ''split''))"

definition index :: "string list \<Rightarrow> nat \<Rightarrow> jsval" where
  "index xs i = (if i < length xs then Str (xs ! i) else Undefined)"

definition replace_all :: "char \<Rightarrow> char \<Rightarrow> string \<Rightarrow> string" where
  "replace_all a b s = map (\<lambda>c. if c = a then b else c) s"

definition base64Decode :: "platform \<Rightarrow> string \<Rightarrow> jserror + string" where
  "base64Decode P base64 =
     (case atob P of
        Some f \<Rightarrow> f base64
      | None \<Rightarrow> Buffer_from_base64 P base64)"

text \<open>The \<^verbatim>\<open>switch (output.length % 4)\<close> of \<^verbatim>\<open>urlBase64Decode\<close>.\<close>

definition pad :: "string \<Rightarrow> jserror + string" where
  "pad output =
     (if length output mod 4 = 0 then Inr output
      else if length output mod 4 = 2 then Inr (output @ ''=='')
      else if length output mod 4 = 3 then Inr (output @ ''='')
      else Inl (JSError ''Error'' (Str ''Illegal base64url string!'')))"

definition urlBase64Decode :: "platform \<Rightarrow> jsval \<Rightarrow> jserror + string" where
  "urlBase64Decode P str =
     (case str of
        Str s \<Rightarrow>
          bindE (pad (replace_all CHR ''_'' CHR ''/'' (replace_all CHR ''-'' CHR ''+'' s)))
            (\<lambda>output. bindE (base64Decode P output)
               (\<lambda>binaryString.
                  case TextDecoder_decode P binaryString of
                    Inl e \<Rightarrow> Inr binaryString
                  | Inr text \<Rightarrow> Inr text))
      | _ \<Rightarrow> Inl (TypeError P ''replace''))"

section \<open>Module state of \<^verbatim>\<open>user.ts\<close>\<close>

text \<open>
  A promise made by \<^verbatim>\<open>_refreshToken\<close> is a ticket: the Principal and the refresh token its
  handlers closed over, and its state. A caller that was handed the ticket awaits that state.
\<close>

datatype pstate = Pending | Fulfilled jsval | Rejected jserror

record ticket =
  owner :: nat
  rtoken :: string
  pstate :: pstate

text \<open>\<^verbatim>\<open>RequestOptions\<close> of \<^verbatim>\<open>api.ts\<close>, and a call of \<^verbatim>\<open>api.request\<close>.\<close>

record RequestOptions =
  opt_method :: "string option"
  opt_headers :: "(string \<times> string) list option"
  opt_body :: "string option"
  opt_audience :: "string option"

record request =
  req_api :: jsval
  req_path :: string
  req_options :: RequestOptions

text \<open>
  The module-level bindings \<^verbatim>\<open>currentUser\<close> and \<^verbatim>\<open>refreshPromises\<close> (its own
  properties), the Principals by address, the tickets, the \<^verbatim>\<open>localStorage\<close> of
  \<^verbatim>\<open>window\<close> (absent where \<^verbatim>\<open>window\<close> is undefined), the messages of the errors given to
  \<^verbatim>\<open>console.error\<close>, and the calls of \<^verbatim>\<open>api.request\<close>, in order.
\<close>

record world =
  heap :: "nat \<Rightarrow> obj"
  nextAddr :: nat
  currentUser :: "nat option"
  refreshPromises :: "string \<rightharpoonup> nat"
  promises :: "nat \<Rightarrow> ticket"
  nextPromise :: nat
  window :: "(string \<rightharpoonup> string) option"
  console_errors :: "string list"
  requests :: "request list"

definition ExpiryMargin :: jsnum where
  "ExpiryMargin = Fin (60 * 1000)"

definition storageKey :: string where
  "storageKey = ''gotrue.user''"

definition forbiddenUpdateAttributes :: "string list" where
  "forbiddenUpdateAttributes = [''api'', ''token'', ''audience'', ''url'']"

definition forbiddenSaveAttributes :: "string list" where
  "forbiddenSaveAttributes = [''api'']"

text \<open>
  The \<^verbatim>\<open>in\<close> operator and a property read follow the prototype chain. An object literal
  inherits the members of \<^verbatim>\<open>Object.prototype\<close>, each of them truthy; \<^verbatim>\<open>User.prototype\<close>
  holds the methods and accessors of the class (static methods are not on it, fields are
  properties of the instance).
\<close>

definition Object_prototype :: "string list" where
  "Object_prototype =
     [''constructor'', ''__defineGetter__'', ''__defineSetter__'', ''hasOwnProperty'',
      ''__lookupGetter__'', ''__lookupSetter__'', ''isPrototypeOf'', ''propertyIsEnumerable'',
      ''toString'', ''valueOf'', ''__proto__'', ''toLocaleString'']"

definition User_prototype :: "string list" where
  "User_prototype =
     [''constructor'', ''admin'', ''update'', ''jwt'', ''logout'', ''_refreshToken'', ''_request'',
      ''getUserData'', ''_saveUserData'', ''_processTokenResponse'', ''_refreshSavedSession'',
      ''_details'', ''_saveSession'', ''tokenDetails'', ''clearSession'']"

definition in_literal :: "string \<Rightarrow> string list \<Rightarrow> bool" where
  "in_literal k own = (k \<in> set own \<or> k \<in> set Object_prototype)"

definition in_User_prototype :: "string \<Rightarrow> bool" where
  "in_User_prototype k = (k \<in> set User_prototype \<or> k \<in> set Object_prototype)"

text \<open>
  The expression \<^verbatim>\<open>isBrowser() && localStorage.getItem(storageKey)\<close>: \<^verbatim>\<open>isBrowser()\<close> is
  false where there is no \<^verbatim>\<open>window\<close>. Reading and writing the storage always succeed here.
\<close>

definition stored_json :: "world \<Rightarrow> jsval" where
  "stored_json w =
     (case window w of
        None \<Rightarrow> Bool False
      | Some localStorage \<Rightarrow>
          (case localStorage storageKey of
             None \<Rightarrow> Null
           | Some s \<Rightarrow> Str s))"

definition this_get :: "world \<Rightarrow> nat \<Rightarrow> string \<Rightarrow> jsval" where
  "this_get w this k = get (Obj (heap w this)) k"

definition this_set :: "world \<Rightarrow> nat \<Rightarrow> string \<Rightarrow> jsval \<Rightarrow> world" where
  "this_set w this k v = w\<lparr>heap := (heap w)(this := AList.update k v (heap w this))\<rparr>"

section \<open>The Principal\<close>

text \<open>
  Assigning a property: to an object it sets or appends the property; to a primitive it
  throws, the class body being strict code. \<^verbatim>\<open>_processTokenResponse\<close> reaches the
  assignment only with an object, since only an object has an \<^verbatim>\<open>access_token\<close> to split.
\<close>

definition set_property :: "platform \<Rightarrow> jsval \<Rightarrow> string \<Rightarrow> jsval \<Rightarrow> jserror + jsval" where
  "set_property P target k v =
     (case target of
        Obj kvs \<Rightarrow> Inr (Obj (AList.update k v kvs))
      | _ \<Rightarrow> Inl (TypeError P k))"

text \<open>The body of the \<^verbatim>\<open>try\<close> of \<^verbatim>\<open>_processTokenResponse\<close>; its value is the token after it.\<close>

definition try_claims :: "platform \<Rightarrow> jsval \<Rightarrow> jserror + jsval" where
  "try_claims P tokenResponse =
     bindE (member P tokenResponse ''access_token'') (\<lambda>access_token.
     bindE (split P access_token CHR ''.'') (\<lambda>segments.
     bindE (urlBase64Decode P (index segments 1)) (\<lambda>text.
     bindE (JSON_parse P text) (\<lambda>claims.
     bindE (member P claims ''exp'') (\<lambda>exp.
     set_property P tokenResponse ''expires_at''
       (Num (num_mul (ToNumber P exp) (Fin 1000))))))))"

definition processTokenResponse :: "platform \<Rightarrow> world \<Rightarrow> nat \<Rightarrow> jsval \<Rightarrow> world" where
  "processTokenResponse P w this tokenResponse =
     (let w1 = this_set w this ''token'' tokenResponse
      in case try_claims P tokenResponse of
           Inr token \<Rightarrow> this_set w1 this ''token'' token
         | Inl error \<Rightarrow>
             w1\<lparr>console_errors := console_errors w1 @
                  [''Gotrue-js: Failed to parse tokenResponse claims: '' @ error_toString P error]\<rparr>)"

text \<open>
  The constructor. The field initialiser \<^verbatim>\<open>token = null\<close> runs first; \<^verbatim>\<open>api.apiURL\<close>
  throws when \<^verbatim>\<open>api\<close> is \<^verbatim>\<open>null\<close> or \<^verbatim>\<open>undefined\<close>, before anything is stored. A field
  declared without an initialiser is a property once it is assigned (whether the compiler also
  defines it as \<^verbatim>\<open>undefined\<close> beforehand changes no value read below).
\<close>

definition User_new ::
  "platform \<Rightarrow> world \<Rightarrow> jsval \<Rightarrow> jsval \<Rightarrow> jsval \<Rightarrow> jserror + (nat \<times> world)" where
  "User_new P w api tokenResponse audience =
     bindE (member P api ''apiURL'') (\<lambda>url.
       let this = nextAddr w;
           w0 = w\<lparr>heap := (heap w)(this := [(''token'', Null)]), nextAddr := Suc this\<rparr>;
           w1 = this_set w0 this ''api'' api;
           w2 = this_set w1 this ''url'' url;
           w3 = this_set w2 this ''audience'' audience;
           w4 = processTokenResponse P w3 this tokenResponse
       in Inr (this, w4\<lparr>currentUser := Some this\<rparr>))"

definition removeSavedSession :: "world \<Rightarrow> world" where
  "removeSavedSession w =
     (case window w of
        None \<Rightarrow> w
      | Some localStorage \<Rightarrow> w\<lparr>window := Some (localStorage(storageKey := None))\<rparr>)"

definition tokenDetails :: "world \<Rightarrow> nat \<Rightarrow> jsval" where
  "tokenDetails w this = this_get w this ''token''"

definition clearSession :: "world \<Rightarrow> nat \<Rightarrow> world" where
  "clearSession w this =
     (let w1 = removeSavedSession w;
          w2 = this_set w1 this ''token'' Null
      in w2\<lparr>currentUser := None\<rparr>)"

text \<open>
  \<^verbatim>\<open>for (const key in attributes)\<close> with \<^verbatim>\<open>attributes[key]\<close>: the own properties of an
  object, the indices of an array or of a string, nothing for any other value.
\<close>

definition digit :: "nat \<Rightarrow> char" where
  "digit n = ''0123456789'' ! n"

function show_nat :: "nat \<Rightarrow> string" where
  "show_nat n = (if n < 10 then [digit n] else show_nat (n div 10) @ [digit (n mod 10)])"
  by pat_completeness auto
termination
  by (relation "measure id") auto

fun entries :: "jsval \<Rightarrow> (string \<times> jsval) list" where
  "entries (Obj kvs) = map (\<lambda>key. (key, get (Obj kvs) key)) (map fst kvs)"
| "entries (Arr xs) = zip (map show_nat [0..<length xs]) xs"
| "entries (Str s) = zip (map show_nat [0..<length s]) (map (\<lambda>c. Str [c]) s)"
| "entries v = []"

text \<open>The loop of \<^verbatim>\<open>_saveUserData\<close> over the object \<^verbatim>\<open>this\<close>.\<close>

fun copy_attributes :: "obj \<Rightarrow> (string \<times> jsval) list \<Rightarrow> obj" where
  "copy_attributes this [] = this"
| "copy_attributes this ((key, v) # rest) =
     (if in_User_prototype key \<or> in_literal key forbiddenUpdateAttributes
      then copy_attributes this rest
      else copy_attributes (AList.update key v this) rest)"

definition saveUserData :: "world \<Rightarrow> nat \<Rightarrow> jsval \<Rightarrow> bool \<Rightarrow> world" where
  "saveUserData w this attributes fromStorage =
     (let w1 = w\<lparr>heap := (heap w)(this := copy_attributes (heap w this) (entries attributes))\<rparr>
      in if fromStorage then this_set w1 this ''_fromStorage'' (Bool True) else w1)"

text \<open>The getter \<^verbatim>\<open>_details\<close>: the own properties, the instance having no enumerable other.\<close>

definition details :: "obj \<Rightarrow> obj" where
  "details this =
     filter (\<lambda>(key, v). \<not> (in_User_prototype key \<or> in_literal key forbiddenSaveAttributes)) this"

definition saveSession :: "platform \<Rightarrow> world \<Rightarrow> nat \<Rightarrow> world" where
  "saveSession P w this =
     (case window w of
        None \<Rightarrow> w
      | Some localStorage \<Rightarrow>
          w\<lparr>window := Some (localStorage(storageKey \<mapsto> JSON_stringify P (Obj (details (heap w this)))))\<rparr>)"

definition refreshSavedSession :: "platform \<Rightarrow> world \<Rightarrow> nat \<Rightarrow> world" where
  "refreshSavedSession P w this =
     (if truthy (stored_json w) then saveSession P w this else w)"

section \<open>Token refresh\<close>

text \<open>
  What \<^verbatim>\<open>jwt\<close> returns: a promise settled at once, a ticket, or, where the lookup in
  \<^verbatim>\<open>refreshPromises\<close> finds a member inherited from \<^verbatim>\<open>Object.prototype\<close>, that member.
\<close>

datatype jsret =
    PromiseResolve jsval
  | PromiseReject jserror
  | Ticket nat
  | Inherited string

definition refreshToken :: "platform \<Rightarrow> world \<Rightarrow> nat \<Rightarrow> jsval \<Rightarrow> jsret \<times> world" where
  "refreshToken P w this refresh_token =
     (let r = ToString P refresh_token
      in case refreshPromises w r of
           Some existingPromise \<Rightarrow> (Ticket existingPromise, w)
         | None \<Rightarrow>
             if r \<in> set Object_prototype then (Inherited r, w)
             else
               let refreshRequest =
                     \<lparr>req_api = this_get w this ''api'', req_path = ''/token'',
                      req_options =
                        \<lparr>opt_method = Some ''POST'',
                         opt_headers = Some [(''Content-Type'', ''application/x-www-form-urlencoded'')],
                         opt_body = Some (''grant_type=refresh_token&refresh_token='' @ r),
                         opt_audience = None\<rparr>\<rparr>;
                   promise = nextPromise w
               in (Ticket promise,
                   w\<lparr>requests := requests w @ [refreshRequest],
                     promises := (promises w)(promise := \<lparr>owner = this, rtoken = r, pstate = Pending\<rparr>),
                     nextPromise := Suc promise,
                     refreshPromises := (refreshPromises w)(r \<mapsto> promise)\<rparr>))"

definition jwt :: "platform \<Rightarrow> world \<Rightarrow> nat \<Rightarrow> bool \<Rightarrow> int \<Rightarrow> jsret \<times> world" where
  "jwt P w this forceRefresh now =
     (let token = tokenDetails w this
      in if token = Null \<or> token = Undefined
         then (PromiseReject (JSError ''Error'' (Str ''Gotrue-js: failed getting jwt access token'')), w)
         else
           let expires_at = get token ''expires_at'';
               refresh_token = get token ''refresh_token'';
               access_token = get token ''access_token''
           in if forceRefresh \<or> num_less (num_sub (ToNumber P expires_at) ExpiryMargin) (Fin now)
              then refreshToken P w this refresh_token
              else (PromiseResolve access_token, w))"

text \<open>
  How the race of the request against the 30 second timer ends, and the handlers that then
  run: \<^verbatim>\<open>.then\<close> on a response, \<^verbatim>\<open>.catch\<close> on a failure, on the timeout and on an error
  thrown by the \<^verbatim>\<open>.then\<close> handler.
\<close>

datatype race = Responded jsval | Failed jserror | TimedOut

definition on_rejected :: "world \<Rightarrow> nat \<Rightarrow> jserror \<Rightarrow> world" where
  "on_rejected w promise error =
     (let t = promises w promise;
          w1 = w\<lparr>refreshPromises := (refreshPromises w)(rtoken t := None)\<rparr>;
          w2 = clearSession w1 (owner t)
      in w2\<lparr>promises := (promises w2)(promise := t\<lparr>pstate := Rejected error\<rparr>)\<rparr>)"

definition on_fulfilled :: "platform \<Rightarrow> world \<Rightarrow> nat \<Rightarrow> jsval \<Rightarrow> world" where
  "on_fulfilled P w promise response =
     (let t = promises w promise;
          w1 = w\<lparr>refreshPromises := (refreshPromises w)(rtoken t := None)\<rparr>;
          w2 = processTokenResponse P w1 (owner t) response;
          w3 = refreshSavedSession P w2 (owner t)
      in if \<not> truthy (tokenDetails w3 (owner t))
         then on_rejected w3 promise (JSError ''Error'' (Str ''Gotrue-js: Token not set after refresh''))
         else w3\<lparr>promises := (promises w3)
                  (promise := t\<lparr>pstate := Fulfilled (get (tokenDetails w3 (owner t)) ''access_token'')\<rparr>)\<rparr>)"

definition settle :: "platform \<Rightarrow> world \<Rightarrow> nat \<Rightarrow> race \<Rightarrow> world" where
  "settle P w promise r =
     (if pstate (promises w promise) \<noteq> Pending then w
      else case r of
             Responded response \<Rightarrow> on_fulfilled P w promise response
           | Failed error \<Rightarrow> on_rejected w promise error
           | TimedOut \<Rightarrow> on_rejected w promise (JSError ''Error'' (Str ''Token refresh timeout'')))"

section \<open>Session recovery\<close>

text \<open>
  The constructor of \<^verbatim>\<open>API\<close> (\<^verbatim>\<open>api.ts\<close>); the regular expression \<^verbatim>\<open>/^\/(?!\/)/\<close> holds
  of a text that starts with one slash and not with two.
\<close>

fun relative_url :: "string \<Rightarrow> bool" where
  "relative_url (a # b # cs) = (a = CHR ''/'' \<and> b \<noteq> CHR ''/'')"
| "relative_url [a] = (a = CHR ''/'')"
| "relative_url [] = False"

definition API_new :: "platform \<Rightarrow> jsval \<Rightarrow> jsval \<Rightarrow> jsval" where
  "API_new P apiURL options =
     (let url = (if truthy apiURL then apiURL else Str []);
          defaultHeaders = (if nullish options then Undefined else get options ''defaultHeaders'')
      in Obj [(''apiURL'', url),
              (''_sameOrigin'', Bool (relative_url (ToString P url))),
              (''defaultHeaders'', if truthy defaultHeaders then defaultHeaders else Obj [])])"



section \<open>Authenticated requests\<close>

text \<open>
  The \<^verbatim>\<open>catch\<close> block that \<^verbatim>\<open>User._request\<close> and \<^verbatim>\<open>GoTrue._request\<close> share word for
  word, up to its \<^verbatim>\<open>throw error\<close>.
\<close>

definition catch_error :: "platform \<Rightarrow> jserror \<Rightarrow> jserror" where
  "catch_error P error =
     (case error of
        JSONHTTPError message status json \<Rightarrow>
          if truthy json then
            (if truthy (get json ''msg'') then set_message error (get json ''msg'')
             else if truthy (get json ''error'')
             then set_message error
                    (Str (ToString P (get json ''error'') @ '': '' @
                          ToString P (get json ''error_description'')))
             else error)
          else error
      | _ \<Rightarrow> error)"

definition set_header :: "(string \<times> string) list \<Rightarrow> string \<Rightarrow> string \<Rightarrow> (string \<times> string) list" where
  "set_header headers k v = AList.update k v headers"

text \<open>
  \<^verbatim>\<open>User._request\<close> is asynchronous: what its two \<^verbatim>\<open>await\<close>s deliver is given, the outcome
  of \<^verbatim>\<open>this.jwt()\<close> and the answer of the transport to the request made.
\<close>

definition User_request ::
  "platform \<Rightarrow> obj \<Rightarrow> string \<Rightarrow> RequestOptions \<Rightarrow> jserror + jsval \<Rightarrow>
   (request \<Rightarrow> jserror + jsval) \<Rightarrow> jserror + jsval" where
  "User_request P this path options jwt_outcome transport =
     (let headers = (case opt_headers options of Some h \<Rightarrow> h | None \<Rightarrow> []);
          aud = (case opt_audience options of
                   Some a \<Rightarrow> if a \<noteq> [] then Str a else get (Obj this) ''audience''
                 | None \<Rightarrow> get (Obj this) ''audience'');
          headers1 = (if truthy aud then set_header headers ''X-JWT-AUD'' (ToString P aud) else headers)
      in case bindE jwt_outcome (\<lambda>token.
                transport
                  \<lparr>req_api = get (Obj this) ''api'', req_path = path,
                   req_options = options
                     \<lparr>opt_headers := Some (set_header headers1 ''Authorization''
                                              (''Bearer '' @ ToString P token))\<rparr>\<rparr>) of
           Inr response \<Rightarrow> Inr response
         | Inl error \<Rightarrow> Inl (catch_error P error))"

text \<open>\<^verbatim>\<open>GoTrue._request\<close> of \<^verbatim>\<open>index.ts\<close>, with the \<^verbatim>\<open>api\<close> and \<^verbatim>\<open>audience\<close> of the client.\<close>

definition GoTrue_request ::
  "platform \<Rightarrow> jsval \<Rightarrow> string option \<Rightarrow> string \<Rightarrow> RequestOptions \<Rightarrow>
   (request \<Rightarrow> jserror + jsval) \<Rightarrow> jserror + jsval" where
  "GoTrue_request P api audience path options transport =
     (let headers = (case opt_headers options of Some h \<Rightarrow> h | None \<Rightarrow> []);
          aud = (case opt_audience options of
                   Some a \<Rightarrow> if a \<noteq> [] then Some a else audience
                 | None \<Rightarrow> audience);
          headers1 = (case aud of
                        Some a \<Rightarrow> if a \<noteq> [] then set_header headers ''X-JWT-AUD'' a else headers
                      | None \<Rightarrow> headers)
      in case transport \<lparr>req_api = api, req_path = path,
                         req_options = options\<lparr>opt_headers := Some headers1\<rparr>\<rparr> of
           Inr response \<Rightarrow> Inr response
         | Inl error \<Rightarrow> Inl (catch_error P error))"

section \<open>Text containment\<close>



section \<open>A runtime for the examples\<close>

text \<open>
  The examples run on a test double of the runtime, as the tests of the repository do, which
  replace \<^verbatim>\<open>atob\<close> and \<^verbatim>\<open>TextDecoder\<close>. Its \<^verbatim>\<open>atob\<close> is the decoder of the HTML standard
  (without the removal of white space); its \<^verbatim>\<open>TextDecoder\<close> is the mock of the tests, one
  character for each byte; its \<^verbatim>\<open>JSON.parse\<close> knows the texts of the examples and rejects
  every other text; its \<^verbatim>\<open>JSON.stringify\<close> writes values without escapes; its conversion
  to a number is that of an object, \<^verbatim>\<open>NaN\<close>.
\<close>

fun index_of :: "char \<Rightarrow> string \<Rightarrow> nat option" where
  "index_of c [] = None"
| "index_of c (x # xs) = (if c = x then Some 0 else map_option Suc (index_of c xs))"

definition base64_alphabet :: string where
  "base64_alphabet = ''ABCDEFGHIJKLMNOPQRSTUVWXYZabcdefghijklmnopqrstuvwxyz0123456789+/''"

fun sextets :: "string \<Rightarrow> nat list option" where
  "sextets [] = Some []"
| "sextets (c # cs) =
     (case index_of c base64_alphabet of
        None \<Rightarrow> None
      | Some n \<Rightarrow> map_option ((#) n) (sextets cs))"

fun octets :: "nat list \<Rightarrow> nat list" where
  "octets (a # b # c # d # rest) =
     (a * 4 + b div 16) # ((b mod 16) * 16 + c div 4) # ((c mod 4) * 64 + d) # octets rest"
| "octets [a, b, c] = [a * 4 + b div 16, (b mod 16) * 16 + c div 4]"
| "octets [a, b] = [a * 4 + b div 16]"
| "octets xs = []"

definition strip_padding :: "string \<Rightarrow> string" where
  "strip_padding s =
     (if length s mod 4 = 0 \<and> s \<noteq> [] \<and> last s = CHR ''=''
      then (if butlast s \<noteq> [] \<and> last (butlast s) = CHR ''=''
            then butlast (butlast s) else butlast s)
      else s)"

definition InvalidCharacterError :: jserror where
  "InvalidCharacterError =
     JSError ''InvalidCharacterError'' (Str ''The string to be decoded is not correctly encoded.'')"

definition test_atob :: "string \<Rightarrow> jserror + string" where
  "test_atob s =
     (let data = strip_padding s
      in if length data mod 4 = 1 then Inl InvalidCharacterError
         else case sextets data of
                None \<Rightarrow> Inl InvalidCharacterError
              | Some xs \<Rightarrow> Inr (map char_of (octets xs)))"

text \<open>
  The access token of the test \<^verbatim>\<open>should parse token in ctor\<close> with the text of its payload,
  and two stored snapshots, one of them without \<^verbatim>\<open>url\<close>.
\<close>

definition test_access_token :: string where
  "test_access_token =
     ''header.eyJzdWIiOiIxMjM0NTY3ODkwIiwibmFtZSI6IkpvaG4gRG9lIiwiaWF0IjoxNTE2MjM5MDIyLCJleHAiOjEwMDB9.secret''"

definition test_claims_text :: string where
  \<open>test_claims_text = ''{"sub":"1234567890","name":"John Doe","iat":1516239022,"exp":1000}''\<close>

definition test_snapshot_text :: string where
  \<open>test_snapshot_text =
     ''{"url":"/.netlify/identity","token":{"access_token":"header.e30.secret"},"email":"a@b.c"}''\<close>

definition test_snapshot_without_url :: string where
  \<open>test_snapshot_without_url = ''{"token":{"access_token":"header.e30.secret"}}''\<close>

definition test_JSON_parse :: "string \<Rightarrow> jserror + jsval" where
  \<open>test_JSON_parse s =
     (if s = ''null'' then Inr Null
      else if s = ''{}'' then Inr (Obj [])
      else if s = test_claims_text
      then Inr (Obj [(''sub'', Str ''1234567890''), (''name'', Str ''John Doe''),
                     (''iat'', Num (Fin 1516239022)), (''exp'', Num (Fin 1000))])
      else if s = test_snapshot_text
      then Inr (Obj [(''url'', Str ''/.netlify/identity''),
                     (''token'', Obj [(''access_token'', Str ''header.e30.secret'')]),
                     (''email'', Str ''a@b.c'')])
      else if s = test_snapshot_without_url
      then Inr (Obj [(''token'', Obj [(''access_token'', Str ''header.e30.secret'')])])
      else Inl (JSError ''SyntaxError'' (Str ''Unexpected token in JSON at position 0'')))\<close>

fun test_JSON_stringify :: "jsval \<Rightarrow> string"
  and stringify_elements :: "jsval list \<Rightarrow> string"
  and stringify_properties :: "(string \<times> jsval) list \<Rightarrow> string" where
  "test_JSON_stringify Undefined = ''null''"
| "test_JSON_stringify Null = ''null''"
| "test_JSON_stringify (Bool b) = (if b then ''true'' else ''false'')"
| "test_JSON_stringify (Num NaN) = ''null''"
| "test_JSON_stringify (Num (Fin n)) =
     (if n < 0 then CHR ''-'' # show_nat (nat (- n)) else show_nat (nat n))"
| "test_JSON_stringify (Str s) = CHR 0x22 # s @ [CHR 0x22]"
| "test_JSON_stringify (Arr xs) = CHR ''['' # stringify_elements xs @ '']''"
| "test_JSON_stringify (Obj kvs) = CHR ''{'' # stringify_properties kvs @ ''}''"
| "stringify_elements [] = []"
| "stringify_elements [x] = test_JSON_stringify x"
| "stringify_elements (x # y # ys) = test_JSON_stringify x @ CHR '','' # stringify_elements (y # ys)"
| "stringify_properties [] = []"
| "stringify_properties [(k, v)] = CHR 0x22 # k @ CHR 0x22 # CHR '':'' # test_JSON_stringify v"
| "stringify_properties ((k, v) # p # ps) =
     CHR 0x22 # k @ CHR 0x22 # CHR '':'' # test_JSON_stringify v @ CHR '','' #
     stringify_properties (p # ps)"

definition test_platform :: platform where
  "test_platform =
     \<lparr>atob = Some test_atob,
      Buffer_from_base64 = test_atob,
      TextDecoder_decode = Inr,
      JSON_parse = test_JSON_parse,
      JSON_stringify = test_JSON_stringify,
      ToNumber_other = (\<lambda>v. NaN),
      ToString_other = test_JSON_stringify,
      TypeError_message = (\<lambda>k. ''Cannot read properties of undefined (reading '' @ k @ '')'')\<rparr>"

text \<open>
  The state of a freshly loaded module in a browser with an empty \<^verbatim>\<open>localStorage\<close>, and the
  transport of the examples.
\<close>

definition no_ticket :: ticket where
  "no_ticket = \<lparr>owner = 0, rtoken = [], pstate = Pending\<rparr>"

definition loaded :: world where
  "loaded =
     \<lparr>heap = (\<lambda>a. []), nextAddr = 0, currentUser = None,
      refreshPromises = Map.empty, promises = (\<lambda>p. no_ticket), nextPromise = 0,
      window = Some Map.empty, console_errors = [], requests = []\<rparr>"

definition test_api :: jsval where
  "test_api = API_new test_platform (Str ''/.netlify/identity'') (Obj [])"

text \<open>
  The module after a Principal was constructed at address 0 with the given token, in a browser
  with an empty \<^verbatim>\<open>localStorage\<close>.
\<close>

definition signed_in :: "jsval \<Rightarrow> world" where
  "signed_in token =
     loaded\<lparr>heap := (\<lambda>a. [])
                 (0 := [(''token'', token), (''api'', test_api),
                        (''url'', Str ''/.netlify/identity''), (''audience'', Str [])]),
            nextAddr := 1, currentUser := Some 0\<rparr>"

text \<open>The same module with the given text stored as the session snapshot.\<close>

definition stored :: "world \<Rightarrow> string \<Rightarrow> world" where
  "stored w s = w\<lparr>window := Some (Map.empty(storageKey \<mapsto> s))\<rparr>"

section \<open>Callers\<close>

text \<open>
  Callers that invoke \<^verbatim>\<open>jwt\<close> one after the other, at the given times, before any promise
  settles: the runtime runs each call to its \<^verbatim>\<open>return\<close> without interleaving.
\<close>

fun jwt_calls :: "platform \<Rightarrow> world \<Rightarrow> nat \<Rightarrow> bool \<Rightarrow> int list \<Rightarrow> jsret list \<times> world" where
  "jwt_calls P w this forceRefresh [] = ([], w)"
| "jwt_calls P w this forceRefresh (now # nows) =
     (let (r, w1) = jwt P w this forceRefresh now;
          (rs, w2) = jwt_calls P w1 this forceRefresh nows
      in (r # rs, w2))"

section \<open>Properties of the token codec\<close>

lemma get_update_same: "get (Obj (AList.update k v al)) k = v"
  by (simp add: update_conv')

lemma get_update_other: "k' \<noteq> k \<Longrightarrow> get (Obj (AList.update k v al)) k' = get (Obj al) k'"
  by (simp add: update_conv')


lemma this_get_set_other:
  "a' \<noteq> a \<or> k' \<noteq> k \<Longrightarrow> this_get (this_set w a k v) a' k' = this_get w a' k'"
  by (auto simp add: this_get_def this_set_def update_conv')

lemma this_set_fields:
  "nextAddr (this_set w a k v) = nextAddr w"
  "currentUser (this_set w a k v) = currentUser w"
  "refreshPromises (this_set w a k v) = refreshPromises w"
  "promises (this_set w a k v) = promises w"
  "nextPromise (this_set w a k v) = nextPromise w"
  "window (this_set w a k v) = window w"
  "console_errors (this_set w a k v) = console_errors w"
  "requests (this_set w a k v) = requests w"
  by (simp_all add: this_set_def)












subsection \<open>Failures of the decoding\<close>















section \<open>Properties of \<^verbatim>\<open>jwt\<close>\<close>

lemma jwt_held:
  assumes "\<not> nullish (tokenDetails w this)"
  shows "jwt P w this forceRefresh now =
         (if forceRefresh \<or>
             num_less (num_sub (ToNumber P (get (tokenDetails w this) ''expires_at'')) ExpiryMargin) (Fin now)
          then refreshToken P w this (get (tokenDetails w this) ''refresh_token'')
          else (PromiseResolve (get (tokenDetails w this) ''access_token''), w))"
  using assms by (simp add: jwt_def nullish_def Let_def)










section \<open>Properties of the refresh protocol\<close>

lemma refreshToken_existing:
  assumes "refreshPromises w (ToString P refresh_token) = Some p"
  shows "refreshToken P w this refresh_token = (Ticket p, w)"
  using assms by (simp add: refreshToken_def Let_def)

lemma refreshToken_new:
  assumes "refreshPromises w (ToString P refresh_token) = None"
    and "ToString P refresh_token \<notin> set Object_prototype"
  shows "refreshToken P w this refresh_token =
         (Ticket (nextPromise w),
          w\<lparr>requests := requests w @
                [\<lparr>req_api = this_get w this ''api'', req_path = ''/token'',
                  req_options =
                    \<lparr>opt_method = Some ''POST'',
                     opt_headers = Some [(''Content-Type'', ''application/x-www-form-urlencoded'')],
                     opt_body = Some (''grant_type=refresh_token&refresh_token='' @
                                      ToString P refresh_token),
                     opt_audience = None\<rparr>\<rparr>],
            promises := (promises w)
              (nextPromise w := \<lparr>owner = this, rtoken = ToString P refresh_token, pstate = Pending\<rparr>),
            nextPromise := Suc (nextPromise w),
            refreshPromises := (refreshPromises w)(ToString P refresh_token \<mapsto> nextPromise w)\<rparr>)"
  using assms by (simp add: refreshToken_def Let_def)

lemma jwt_calls_same:
  assumes "\<And>now. now \<in> set nows \<Longrightarrow> jwt P w this forceRefresh now = (r, w)"
  shows "jwt_calls P w this forceRefresh nows = (replicate (length nows) r, w)"
  using assms by (induction nows) simp_all

text \<open>
  Single flight, for a refresh token that is not the name of a member of
  \<^verbatim>\<open>Object.prototype\<close>: callers of \<^verbatim>\<open>jwt\<close> on a stale token (or with \<^verbatim>\<open>forceRefresh\<close>) that
  find a ticket registered all receive it and no request is made; callers that find none make
  one request between them, and all receive the one ticket registered by the first.
\<close>

lemma single_flight:
  assumes held: "\<not> nullish (tokenDetails w this)"
    and stale: "\<And>now. now \<in> set nows \<Longrightarrow>
                  forceRefresh \<or>
                  num_less (num_sub (ToNumber P (get (tokenDetails w this) ''expires_at'')) ExpiryMargin)
                    (Fin now)"
    and r: "r = ToString P (get (tokenDetails w this) ''refresh_token'')"
    and own: "r \<notin> set Object_prototype"
    and some: "nows \<noteq> []"
  shows "(refreshPromises w r = Some p \<longrightarrow>
            jwt_calls P w this forceRefresh nows = (replicate (length nows) (Ticket p), w)) \<and>
         (refreshPromises w r = None \<longrightarrow>
            (case jwt_calls P w this forceRefresh nows of
               (rs, w') \<Rightarrow>
                 rs = replicate (length nows) (Ticket (nextPromise w)) \<and>
                 length (requests w') = Suc (length (requests w)) \<and>
                 butlast (requests w') = requests w \<and>
                 opt_body (req_options (last (requests w'))) =
                   Some (''grant_type=refresh_token&refresh_token='' @ r) \<and>
                 refreshPromises w' r = Some (nextPromise w) \<and>
                 promises w' (nextPromise w) = \<lparr>owner = this, rtoken = r, pstate = Pending\<rparr>))"
proof (intro conjI impI)
  assume reg: "refreshPromises w r = Some p"
  have "jwt P w this forceRefresh now = (Ticket p, w)" if "now \<in> set nows" for now
    using stale[OF that] reg r
    by (simp add: jwt_held[OF held] refreshToken_existing)
  then show "jwt_calls P w this forceRefresh nows = (replicate (length nows) (Ticket p), w)"
    by (rule jwt_calls_same)
next
  assume none: "refreshPromises w r = None"
  obtain now rest where nows: "nows = now # rest" using some by (cases nows) auto
  let ?rt = "get (tokenDetails w this) ''refresh_token''"
  define w1 where "w1 = snd (refreshToken P w this ?rt)"
  have first: "jwt P w this forceRefresh now = (Ticket (nextPromise w), w1)"
    using stale[of now] nows none r own
    by (simp add: jwt_held[OF held] refreshToken_new w1_def)
  have w1: "w1 = w\<lparr>requests := requests w @
                [\<lparr>req_api = this_get w this ''api'', req_path = ''/token'',
                  req_options =
                    \<lparr>opt_method = Some ''POST'',
                     opt_headers = Some [(''Content-Type'', ''application/x-www-form-urlencoded'')],
                     opt_body = Some (''grant_type=refresh_token&refresh_token='' @ r),
                     opt_audience = None\<rparr>\<rparr>],
            promises := (promises w)
              (nextPromise w := \<lparr>owner = this, rtoken = r, pstate = Pending\<rparr>),
            nextPromise := Suc (nextPromise w),
            refreshPromises := (refreshPromises w)(r \<mapsto> nextPromise w)\<rparr>"
    using none r own by (simp add: w1_def refreshToken_new)
  have t1: "tokenDetails w1 this = tokenDetails w this"
    by (simp add: w1 tokenDetails_def this_get_def)
  have held1: "\<not> nullish (tokenDetails w1 this)" using held t1 by simp
  have reg1: "refreshPromises w1 r = Some (nextPromise w)" by (simp add: w1)
  have "jwt P w1 this forceRefresh now' = (Ticket (nextPromise w), w1)" if "now' \<in> set rest" for now'
    using stale[of now'] that nows reg1 r t1
    by (simp add: jwt_held[OF held1] refreshToken_existing)
  then have rest: "jwt_calls P w1 this forceRefresh rest =
                   (replicate (length rest) (Ticket (nextPromise w)), w1)"
    by (rule jwt_calls_same)
  show "case jwt_calls P w this forceRefresh nows of
               (rs, w') \<Rightarrow>
                 rs = replicate (length nows) (Ticket (nextPromise w)) \<and>
                 length (requests w') = Suc (length (requests w)) \<and>
                 butlast (requests w') = requests w \<and>
                 opt_body (req_options (last (requests w'))) =
                   Some (''grant_type=refresh_token&refresh_token='' @ r) \<and>
                 refreshPromises w' r = Some (nextPromise w) \<and>
                 promises w' (nextPromise w) = \<lparr>owner = this, rtoken = r, pstate = Pending\<rparr>"
    by (simp add: nows first rest) (simp add: w1)
qed

text \<open>
  Claim C1 at the refresh token \<^verbatim>\<open>constructor\<close>. A Principal is constructed from a token
  response with that refresh token and the expiry 1000000; \<^verbatim>\<open>jwt\<close> is called at 2000000. No
  ticket is registered, yet \<^verbatim>\<open>refreshPromises[refresh_token]\<close> finds
  \<^verbatim>\<open>Object.prototype.constructor\<close>, which is truthy: \<^verbatim>\<open>jwt\<close> on the stale token returns that
  member, makes no request and registers nothing.
\<close>

theorem inherited_member_is_not_a_ticket:
  "(case User_new test_platform loaded test_api
          (Obj [(''access_token'', Str test_access_token), (''refresh_token'', Str ''constructor'')])
          (Str []) of
      Inl e \<Rightarrow> False
    | Inr (this, w) \<Rightarrow>
        get (tokenDetails w this) ''expires_at'' = Num (Fin 1000000) \<and>
        refreshPromises w ''constructor'' = None \<and>
        fst (jwt test_platform w this False 2000000) = Inherited ''constructor'' \<and>
        requests (snd (jwt test_platform w this False 2000000)) = [] \<and>
        refreshPromises (snd (jwt test_platform w this False 2000000)) ''constructor'' = None)"
  by code_simp

subsection \<open>Settling a ticket\<close>

lemma processTokenResponse_frame:
  "nextAddr (processTokenResponse P w this t) = nextAddr w"
  "currentUser (processTokenResponse P w this t) = currentUser w"
  "refreshPromises (processTokenResponse P w this t) = refreshPromises w"
  "promises (processTokenResponse P w this t) = promises w"
  "nextPromise (processTokenResponse P w this t) = nextPromise w"
  "window (processTokenResponse P w this t) = window w"
  "requests (processTokenResponse P w this t) = requests w"
  by (simp_all add: processTokenResponse_def this_set_fields Let_def split: sum.splits)

lemma processTokenResponse_token:
  "tokenDetails (processTokenResponse P w this t) this =
   (case try_claims P t of Inr token \<Rightarrow> token | Inl e \<Rightarrow> t)"
  by (simp add: processTokenResponse_def tokenDetails_def this_get_def this_set_def update_conv'
      Let_def split: sum.splits)

lemma stored_json_window: "window w' = window w \<Longrightarrow> stored_json w' = stored_json w"
  by (simp add: stored_json_def)

lemma clearSession_effect:
  "tokenDetails (clearSession w this) this = Null"
  "currentUser (clearSession w this) = None"
  "refreshPromises (clearSession w this) = refreshPromises w"
  "promises (clearSession w this) = promises w"
  "requests (clearSession w this) = requests w"
  "console_errors (clearSession w this) = console_errors w"
  "(case window (clearSession w this) of
      None \<Rightarrow> window w = None
    | Some localStorage \<Rightarrow> localStorage storageKey = None)"
  by (simp_all add: clearSession_def removeSavedSession_def tokenDetails_def this_get_def
      this_set_def update_conv' Let_def split: option.splits)

lemma on_rejected_effect:
  "refreshPromises (on_rejected w p error) (rtoken (promises w p)) = None"
  "tokenDetails (on_rejected w p error) (owner (promises w p)) = Null"
  "currentUser (on_rejected w p error) = None"
  "pstate (promises (on_rejected w p error) p) = Rejected error"
  "requests (on_rejected w p error) = requests w"
  "(case window (on_rejected w p error) of
      None \<Rightarrow> window w = None
    | Some localStorage \<Rightarrow> localStorage storageKey = None)"
proof -
  let ?w1 = "w\<lparr>refreshPromises := (refreshPromises w)(rtoken (promises w p) := None)\<rparr>"
  have e: "on_rejected w p error =
           (clearSession ?w1 (owner (promises w p)))
             \<lparr>promises := (promises (clearSession ?w1 (owner (promises w p))))
                (p := (promises w p)\<lparr>pstate := Rejected error\<rparr>)\<rparr>"
    by (simp add: on_rejected_def Let_def)
  show "refreshPromises (on_rejected w p error) (rtoken (promises w p)) = None"
    by (simp add: e clearSession_effect)
  show "tokenDetails (on_rejected w p error) (owner (promises w p)) = Null"
    using clearSession_effect(1)[of ?w1 "owner (promises w p)"]
    by (simp add: e tokenDetails_def this_get_def)
  show "currentUser (on_rejected w p error) = None"
    by (simp add: e clearSession_effect)
  show "pstate (promises (on_rejected w p error) p) = Rejected error"
    by (simp add: e)
  show "requests (on_rejected w p error) = requests w"
    by (simp add: e clearSession_effect)
  show "case window (on_rejected w p error) of
      None \<Rightarrow> window w = None
    | Some localStorage \<Rightarrow> localStorage storageKey = None"
    using clearSession_effect(7)[of ?w1 "owner (promises w p)"]
    by (auto simp add: e split: option.splits)
qed

text \<open>
  Claim C3. When the race of a pending ticket ends with a failure of the request or with the
  timeout, the ticket is removed from the registry, the token of its Principal is \<^verbatim>\<open>null\<close>,
  the snapshot under the storage key is gone, no Principal is current, and the ticket, hence
  every caller that awaits it, is rejected with the original error (the timeout error after a
  timeout). No request is made.
\<close>

theorem failed_refresh_clears_session:
  assumes pending: "pstate (promises w p) = Pending"
    and outcome: "r = Failed error \<or> r = TimedOut \<and> error = JSError ''Error'' (Str ''Token refresh timeout'')"
  shows "refreshPromises (settle P w p r) (rtoken (promises w p)) = None \<and>
         tokenDetails (settle P w p r) (owner (promises w p)) = Null \<and>
         (case window (settle P w p r) of
            None \<Rightarrow> window w = None
          | Some localStorage \<Rightarrow> localStorage storageKey = None) \<and>
         currentUser (settle P w p r) = None \<and>
         pstate (promises (settle P w p r) p) = Rejected error \<and>
         requests (settle P w p r) = requests w"
proof -
  have "settle P w p r = on_rejected w p error"
    using pending outcome by (auto simp add: settle_def)
  then show ?thesis
    using on_rejected_effect[of w p error] by simp
qed


theorem failed_refresh_clears_session_witness:
  "refreshPromises
     (settle test_platform
        (snd (jwt test_platform
                (stored (signed_in (Obj [(''access_token'', Str ''old''), (''refresh_token'', Str ''r1''),
                                         (''expires_at'', Num (Fin 1000))])) test_snapshot_text)
                0 False 2000))
        0 TimedOut) ''r1'' = None \<and>
   tokenDetails
     (settle test_platform
        (snd (jwt test_platform
                (stored (signed_in (Obj [(''access_token'', Str ''old''), (''refresh_token'', Str ''r1''),
                                         (''expires_at'', Num (Fin 1000))])) test_snapshot_text)
                0 False 2000))
        0 TimedOut) 0 = Null \<and>
   stored_json
     (settle test_platform
        (snd (jwt test_platform
                (stored (signed_in (Obj [(''access_token'', Str ''old''), (''refresh_token'', Str ''r1''),
                                         (''expires_at'', Num (Fin 1000))])) test_snapshot_text)
                0 False 2000))
        0 TimedOut) = Null \<and>
   currentUser
     (settle test_platform
        (snd (jwt test_platform
                (stored (signed_in (Obj [(''access_token'', Str ''old''), (''refresh_token'', Str ''r1''),
                                         (''expires_at'', Num (Fin 1000))])) test_snapshot_text)
                0 False 2000))
        0 TimedOut) = None \<and>
   pstate (promises
     (settle test_platform
        (snd (jwt test_platform
                (stored (signed_in (Obj [(''access_token'', Str ''old''), (''refresh_token'', Str ''r1''),
                                         (''expires_at'', Num (Fin 1000))])) test_snapshot_text)
                0 False 2000))
        0 TimedOut) 0) = Rejected (JSError ''Error'' (Str ''Token refresh timeout''))"
proof -
  let ?w = "snd (jwt test_platform
                (stored (signed_in (Obj [(''access_token'', Str ''old''), (''refresh_token'', Str ''r1''),
                                         (''expires_at'', Num (Fin 1000))])) test_snapshot_text)
                0 False 2000)"
  have pending: "pstate (promises ?w 0) = Pending"
    by code_simp
  have t: "rtoken (promises ?w 0) = ''r1''" "owner (promises ?w 0) = 0"
    by code_simp+
  have out: "TimedOut = Failed (JSError ''Error'' (Str ''Token refresh timeout'')) \<or>
             TimedOut = TimedOut \<and>
             JSError ''Error'' (Str ''Token refresh timeout'') = JSError ''Error'' (Str ''Token refresh timeout'')"
    by simp
  have s: "stored_json (settle test_platform ?w 0 TimedOut) = Null"
    by code_simp
  show ?thesis
    using failed_refresh_clears_session[OF pending out, of test_platform] t s
    by simp
qed


lemma try_claims_shape:
  assumes "try_claims P v = Inr token"
  shows "\<exists>kvs x. v = Obj kvs \<and> token = Obj (AList.update ''expires_at'' x kvs)"
  using assms
  by (auto simp add: try_claims_def bindE_def set_property_def split: sum.splits jsval.splits)

lemma processed_token_fields:
  assumes "k \<noteq> ''expires_at''"
  shows "get (case try_claims P v of Inr token \<Rightarrow> token | Inl e \<Rightarrow> v) k = get v k"
proof (cases "try_claims P v")
  case (Inl e)
  then show ?thesis by simp
next
  case (Inr token)
  from try_claims_shape[OF Inr] obtain kvs x
    where "v = Obj kvs" "token = Obj (AList.update ''expires_at'' x kvs)" by blast
  then show ?thesis using Inr assms by (simp add: update_conv')
qed

lemma processed_token_truthy:
  assumes "truthy v"
  shows "truthy (case try_claims P v of Inr token \<Rightarrow> token | Inl e \<Rightarrow> v)"
proof (cases "try_claims P v")
  case (Inl e)
  then show ?thesis using assms by simp
next
  case (Inr token)
  from try_claims_shape[OF Inr] obtain kvs x
    where "token = Obj (AList.update ''expires_at'' x kvs)" by blast
  then show ?thesis using Inr by simp
qed

lemma map_of_filter_key:
  "map_of (filter (\<lambda>(k, v). Q k) al) k = (if Q k then map_of al k else None)"
  by (induction al) auto

lemma details_token: "get (Obj (details this)) ''token'' = get (Obj this) ''token''"
  by (simp add: details_def map_of_filter_key in_User_prototype_def in_literal_def
      User_prototype_def Object_prototype_def forbiddenSaveAttributes_def)

lemma refreshSavedSession_frame:
  "heap (refreshSavedSession P w this) = heap w"
  "currentUser (refreshSavedSession P w this) = currentUser w"
  "refreshPromises (refreshSavedSession P w this) = refreshPromises w"
  "promises (refreshSavedSession P w this) = promises w"
  "requests (refreshSavedSession P w this) = requests w"
  "console_errors (refreshSavedSession P w this) = console_errors w"
  by (simp_all add: refreshSavedSession_def saveSession_def split: option.splits)

lemma refreshSavedSession_window:
  "truthy (stored_json w) \<Longrightarrow>
     stored_json (refreshSavedSession P w this) = Str (JSON_stringify P (Obj (details (heap w this))))"
  "\<not> truthy (stored_json w) \<Longrightarrow> window (refreshSavedSession P w this) = window w"
  by (auto simp add: refreshSavedSession_def saveSession_def stored_json_def split: option.splits)

text \<open>
  Claim C4. When the race of a pending ticket ends with a response (a token object, or any
  truthy value), the Principal holds the response with \<^verbatim>\<open>expires_at\<close> re-derived by the
  decoding of construction (every other field is the response's), the ticket is removed, the
  ticket and so every caller awaiting it is fulfilled with the access token of the response,
  and the snapshot is rewritten, with the new token in it, when one is stored under the
  storage key; when none is stored the storage is left as it was. The current Principal stays
  and no request is made.
\<close>

theorem successful_refresh_replaces_token:
  assumes pending: "pstate (promises w p) = Pending"
    and response: "truthy response"
    and owner: "this = owner (promises w p)"
    and w': "w' = settle P w p (Responded response)"
    and token': "token' = (case try_claims P response of Inr token \<Rightarrow> token | Inl e \<Rightarrow> response)"
  shows "tokenDetails w' this = token' \<and>
         (\<forall>k. k \<noteq> ''expires_at'' \<longrightarrow> get token' k = get response k) \<and>
         refreshPromises w' (rtoken (promises w p)) = None \<and>
         pstate (promises w' p) = Fulfilled (get response ''access_token'') \<and>
         (truthy (stored_json w) \<longrightarrow>
            stored_json w' = Str (JSON_stringify P (Obj (details (heap w' this)))) \<and>
            get (Obj (details (heap w' this))) ''token'' = token') \<and>
         (\<not> truthy (stored_json w) \<longrightarrow> window w' = window w) \<and>
         currentUser w' = currentUser w \<and>
         requests w' = requests w"
proof -
  let ?t = "promises w p"
  let ?w1 = "w\<lparr>refreshPromises := (refreshPromises w)(rtoken ?t := None)\<rparr>"
  let ?w2 = "processTokenResponse P ?w1 this response"
  let ?w3 = "refreshSavedSession P ?w2 this"
  have t2: "tokenDetails ?w2 this = token'"
    by (simp add: processTokenResponse_token token')
  have t3: "tokenDetails ?w3 this = token'"
    using t2 by (simp add: tokenDetails_def this_get_def refreshSavedSession_frame)
  have tr: "truthy token'"
    using processed_token_truthy[OF response] token' by simp
  have acc: "get token' ''access_token'' = get response ''access_token''"
    using processed_token_fields[where k = "''access_token''" and P = P and v = response] token'
    by simp
  have e: "w' = ?w3\<lparr>promises := (promises ?w3)
                  (p := ?t\<lparr>pstate := Fulfilled (get response ''access_token'')\<rparr>)\<rparr>"
    using pending tr t3 acc by (simp add: w' settle_def on_fulfilled_def Let_def owner)
  have s2: "stored_json ?w2 = stored_json w"
    by (rule stored_json_window) (simp add: processTokenResponse_frame)
  have h: "heap w' = heap ?w2"
    by (simp add: e refreshSavedSession_frame)
  have sw: "stored_json w' = stored_json ?w3"
    by (rule stored_json_window) (simp add: e)
  show ?thesis
  proof (intro conjI allI impI)
    show "tokenDetails w' this = token'"
      using t3 by (simp add: e tokenDetails_def this_get_def)
    show "get token' k = get response k" if "k \<noteq> ''expires_at''" for k
      using processed_token_fields[OF that, where P = P and v = response] token' by simp
    show "refreshPromises w' (rtoken ?t) = None"
      by (simp add: e refreshSavedSession_frame processTokenResponse_frame)
    show "pstate (promises w' p) = Fulfilled (get response ''access_token'')"
      by (simp add: e)
    show "stored_json w' = Str (JSON_stringify P (Obj (details (heap w' this))))"
      if "truthy (stored_json w)"
      using that refreshSavedSession_window(1)[of ?w2 P this] s2 sw h by simp
    have "get (Obj (heap w' this)) ''token'' = token'"
      using t2 h by (simp add: tokenDetails_def this_get_def)
    then show "get (Obj (details (heap w' this))) ''token'' = token'"
      using details_token[of "heap w' this"] by simp
    show "window w' = window w" if "\<not> truthy (stored_json w)"
      using that refreshSavedSession_window(2)[of ?w2 P this] s2
      by (simp add: e processTokenResponse_frame)
    show "currentUser w' = currentUser w"
      by (simp add: e refreshSavedSession_frame processTokenResponse_frame)
    show "requests w' = requests w"
      by (simp add: e refreshSavedSession_frame processTokenResponse_frame)
  qed
qed


theorem successful_refresh_replaces_token_witness:
  "tokenDetails
     (settle test_platform
        (snd (jwt test_platform
                (stored (signed_in (Obj [(''access_token'', Str ''old''), (''refresh_token'', Str ''r1''),
                                         (''expires_at'', Num (Fin 1000))])) test_snapshot_text)
                0 False 2000))
        0 (Responded (Obj [(''access_token'', Str test_access_token), (''refresh_token'', Str ''r2'')])))
     0 =
   Obj [(''access_token'', Str test_access_token), (''refresh_token'', Str ''r2''),
        (''expires_at'', Num (Fin 1000000))] \<and>
   refreshPromises
     (settle test_platform
        (snd (jwt test_platform
                (stored (signed_in (Obj [(''access_token'', Str ''old''), (''refresh_token'', Str ''r1''),
                                         (''expires_at'', Num (Fin 1000))])) test_snapshot_text)
                0 False 2000))
        0 (Responded (Obj [(''access_token'', Str test_access_token), (''refresh_token'', Str ''r2'')])))
     ''r1'' = None \<and>
   pstate (promises
     (settle test_platform
        (snd (jwt test_platform
                (stored (signed_in (Obj [(''access_token'', Str ''old''), (''refresh_token'', Str ''r1''),
                                         (''expires_at'', Num (Fin 1000))])) test_snapshot_text)
                0 False 2000))
        0 (Responded (Obj [(''access_token'', Str test_access_token), (''refresh_token'', Str ''r2'')])))
     0) = Fulfilled (Str test_access_token) \<and>
   stored_json
     (settle test_platform
        (snd (jwt test_platform
                (signed_in (Obj [(''access_token'', Str ''old''), (''refresh_token'', Str ''r1''),
                                 (''expires_at'', Num (Fin 1000))]))
                0 False 2000))
        0 (Responded (Obj [(''access_token'', Str test_access_token), (''refresh_token'', Str ''r2'')])))
     = Null"
proof -
  let ?old = "Obj [(''access_token'', Str ''old''), (''refresh_token'', Str ''r1''),
                   (''expires_at'', Num (Fin 1000))]"
  let ?new = "Obj [(''access_token'', Str test_access_token), (''refresh_token'', Str ''r2'')]"
  let ?w = "snd (jwt test_platform (stored (signed_in ?old) test_snapshot_text) 0 False 2000)"
  let ?v = "snd (jwt test_platform (signed_in ?old) 0 False 2000)"
  have pending: "pstate (promises ?w 0) = Pending"
    by code_simp
  have pending': "pstate (promises ?v 0) = Pending"
    by code_simp
  have response: "truthy ?new"
    by simp
  have t: "rtoken (promises ?w 0) = ''r1''" "owner (promises ?w 0) = 0" "owner (promises ?v 0) = 0"
    by code_simp+
  have c: "(case try_claims test_platform ?new of Inr token \<Rightarrow> token | Inl e \<Rightarrow> ?new) =
           Obj [(''access_token'', Str test_access_token), (''refresh_token'', Str ''r2''),
                (''expires_at'', Num (Fin 1000000))]"
    by code_simp
  have n: "\<not> truthy (stored_json ?v)" "window ?v = Some Map.empty"
    by (simp_all add: jwt_def refreshToken_def signed_in_def loaded_def stored_json_def
        tokenDetails_def this_get_def Let_def ExpiryMargin_def Object_prototype_def)
  have a: "get ?new ''access_token'' = Str test_access_token"
    by simp
  show ?thesis
    using successful_refresh_replaces_token[OF pending response refl refl refl, of test_platform]
      successful_refresh_replaces_token[OF pending' response refl refl refl, of test_platform]
      t c n a
    by (simp add: stored_json_def)
qed


section \<open>Properties of the attribute merge\<close>

lemma copy_attributes_protected:
  assumes "in_User_prototype k \<or> in_literal k forbiddenUpdateAttributes"
  shows "map_of (copy_attributes this es) k = map_of this k"
  using assms
proof (induction es arbitrary: this)
  case Nil
  then show ?case by simp
next
  case (Cons e es)
  obtain key v where e: "e = (key, v)" by (cases e)
  show ?case
  proof (cases "in_User_prototype key \<or> in_literal key forbiddenUpdateAttributes")
    case True
    then show ?thesis using Cons e by simp
  next
    case False
    then have "key \<noteq> k" using Cons.prems by auto
    then show ?thesis using Cons False e by (simp add: update_conv')
  qed
qed

lemma copy_attributes_copied:
  "map_of (copy_attributes this (map (\<lambda>key. (key, f key)) keys)) k =
   (if k \<in> set keys \<and> \<not> (in_User_prototype k \<or> in_literal k forbiddenUpdateAttributes)
    then Some (f k) else map_of this k)"
proof (induction keys arbitrary: this)
  case Nil
  then show ?case by simp
next
  case (Cons key keys)
  show ?case
  proof (cases "in_User_prototype key \<or> in_literal key forbiddenUpdateAttributes")
    case True
    then show ?thesis using Cons by auto
  next
    case False
    then show ?thesis using Cons by (auto simp add: update_conv')
  qed
qed

lemma protected_names:
  "k \<in> set [''api'', ''token'', ''audience'', ''url''] \<Longrightarrow> in_literal k forbiddenUpdateAttributes"
  "in_literal ''_fromStorage'' forbiddenUpdateAttributes = False"
  "in_User_prototype ''_fromStorage'' = False"
  by (auto simp add: in_literal_def in_User_prototype_def forbiddenUpdateAttributes_def
      User_prototype_def Object_prototype_def)

text \<open>
  Claim C5. Whatever the input and the flag, \<^verbatim>\<open>_saveUserData\<close> leaves every protected name
  as it was among the own properties of the Principal: \<^verbatim>\<open>api\<close>, \<^verbatim>\<open>token\<close>, \<^verbatim>\<open>audience\<close>
  and \<^verbatim>\<open>url\<close> keep their values, and no member of the prototype (a method or an accessor of
  the class) is shadowed. Its loop copies every other key of an input object onto the
  Principal; what the call leaves is the result of the loop, with the marker
  \<^verbatim>\<open>_fromStorage\<close> set to \<^verbatim>\<open>true\<close> after it when the flag is given. No other Principal
  changes.
\<close>

theorem merge_protects_and_copies:
  "(in_User_prototype k \<or> in_literal k forbiddenUpdateAttributes \<longrightarrow>
      map_of (heap (saveUserData w this attributes fromStorage) this) k = map_of (heap w this) k) \<and>
   (k \<in> set [''api'', ''token'', ''audience'', ''url''] \<longrightarrow>
      this_get (saveUserData w this attributes fromStorage) this k = this_get w this k) \<and>
   (k \<in> fst ` set kvs \<and> \<not> (in_User_prototype k \<or> in_literal k forbiddenUpdateAttributes) \<longrightarrow>
      map_of (copy_attributes (heap w this) (entries (Obj kvs))) k = map_of kvs k) \<and>
   (k \<in> fst ` set kvs \<and> \<not> (in_User_prototype k \<or> in_literal k forbiddenUpdateAttributes) \<and>
    \<not> (fromStorage \<and> k = ''_fromStorage'') \<longrightarrow>
      this_get (saveUserData w this (Obj kvs) fromStorage) this k = get (Obj kvs) k) \<and>
   heap (saveUserData w this attributes fromStorage) this =
     (if fromStorage
      then AList.update ''_fromStorage'' (Bool True) (copy_attributes (heap w this) (entries attributes))
      else copy_attributes (heap w this) (entries attributes)) \<and>
   (a \<noteq> this \<longrightarrow> heap (saveUserData w this attributes fromStorage) a = heap w a)"
proof (intro conjI impI)
  have h: "heap (saveUserData w this attributes fromStorage) this =
     (if fromStorage
      then AList.update ''_fromStorage'' (Bool True) (copy_attributes (heap w this) (entries attributes))
      else copy_attributes (heap w this) (entries attributes))"
    by (simp add: saveUserData_def this_set_def Let_def)
  then show "heap (saveUserData w this attributes fromStorage) this =
     (if fromStorage
      then AList.update ''_fromStorage'' (Bool True) (copy_attributes (heap w this) (entries attributes))
      else copy_attributes (heap w this) (entries attributes))" .
  have frame: "map_of (heap (saveUserData w this attributes fromStorage) this) k = map_of (heap w this) k"
    if p: "in_User_prototype k \<or> in_literal k forbiddenUpdateAttributes"
  proof -
    have "k \<noteq> ''_fromStorage''" using p protected_names(2,3) by auto
    then show ?thesis
      using copy_attributes_protected[OF p] by (simp add: h update_conv')
  qed
  show "map_of (heap (saveUserData w this attributes fromStorage) this) k = map_of (heap w this) k"
    if "in_User_prototype k \<or> in_literal k forbiddenUpdateAttributes"
    using frame[OF that] .
  show "this_get (saveUserData w this attributes fromStorage) this k = this_get w this k"
    if "k \<in> set [''api'', ''token'', ''audience'', ''url'']"
    using frame protected_names(1)[OF that] by (simp add: this_get_def)
  have copied: "map_of (copy_attributes (heap w this) (entries (Obj kvs))) k = map_of kvs k"
    if c: "k \<in> fst ` set kvs \<and> \<not> (in_User_prototype k \<or> in_literal k forbiddenUpdateAttributes)"
  proof -
    from c obtain v where v: "map_of kvs k = Some v"
      by (metis domD domI dom_map_of_conv_image_fst)
    have "map_of (copy_attributes (heap w this) (entries (Obj kvs))) k = Some (get (Obj kvs) k)"
      using c copy_attributes_copied[of "heap w this" "get (Obj kvs)" "map fst kvs" k] by simp
    then show ?thesis using v by simp
  qed
  show "map_of (copy_attributes (heap w this) (entries (Obj kvs))) k = map_of kvs k"
    if "k \<in> fst ` set kvs \<and> \<not> (in_User_prototype k \<or> in_literal k forbiddenUpdateAttributes)"
    using copied[OF that] .
  show "this_get (saveUserData w this (Obj kvs) fromStorage) this k = get (Obj kvs) k"
    if c: "k \<in> fst ` set kvs \<and> \<not> (in_User_prototype k \<or> in_literal k forbiddenUpdateAttributes) \<and>
           \<not> (fromStorage \<and> k = ''_fromStorage'')"
  proof -
    have "map_of (copy_attributes (heap w this) (entries (Obj kvs))) k = map_of kvs k"
      using c copied by blast
    then have "map_of (heap (saveUserData w this (Obj kvs) fromStorage) this) k = map_of kvs k"
      using c by (auto simp add: saveUserData_def this_set_def Let_def update_conv')
    then show ?thesis by (simp add: this_get_def)
  qed
  show "heap (saveUserData w this attributes fromStorage) a = heap w a" if "a \<noteq> this"
    using that by (simp add: saveUserData_def this_set_def Let_def)
qed


theorem merge_protects_and_copies_witness:
  "this_get (saveUserData (signed_in (Obj [(''access_token'', Str ''old'')])) 0
       (Obj [(''api'', Str ''evil''), (''token'', Null), (''audience'', Str ''other''),
             (''url'', Str ''http://evil''), (''jwt'', Str ''stolen''), (''email'', Str ''a@b.c'')])
       False) 0 ''token'' = Obj [(''access_token'', Str ''old'')] \<and>
   this_get (saveUserData (signed_in (Obj [(''access_token'', Str ''old'')])) 0
       (Obj [(''api'', Str ''evil''), (''token'', Null), (''audience'', Str ''other''),
             (''url'', Str ''http://evil''), (''jwt'', Str ''stolen''), (''email'', Str ''a@b.c'')])
       False) 0 ''api'' = test_api \<and>
   map_of (heap (saveUserData (signed_in (Obj [(''access_token'', Str ''old'')])) 0
       (Obj [(''api'', Str ''evil''), (''token'', Null), (''audience'', Str ''other''),
             (''url'', Str ''http://evil''), (''jwt'', Str ''stolen''), (''email'', Str ''a@b.c'')])
       False) 0) ''jwt'' = None \<and>
   this_get (saveUserData (signed_in (Obj [(''access_token'', Str ''old'')])) 0
       (Obj [(''api'', Str ''evil''), (''token'', Null), (''audience'', Str ''other''),
             (''url'', Str ''http://evil''), (''jwt'', Str ''stolen''), (''email'', Str ''a@b.c'')])
       False) 0 ''email'' = Str ''a@b.c'' \<and>
   heap (saveUserData (signed_in (Obj [(''access_token'', Str ''old'')])) 0
       (Obj [(''api'', Str ''evil''), (''token'', Null), (''audience'', Str ''other''),
             (''url'', Str ''http://evil''), (''jwt'', Str ''stolen''), (''email'', Str ''a@b.c'')])
       False) 1 = []"
proof -
  let ?w = "signed_in (Obj [(''access_token'', Str ''old'')])"
  let ?kvs = "[(''api'', Str ''evil''), (''token'', Null), (''audience'', Str ''other''),
               (''url'', Str ''http://evil''), (''jwt'', Str ''stolen''), (''email'', Str ''a@b.c'')]"
  have p1: "''token'' \<in> set [''api'', ''token'', ''audience'', ''url'']"
    and p2: "''api'' \<in> set [''api'', ''token'', ''audience'', ''url'']"
    by simp_all
  have p3: "in_User_prototype ''jwt'' \<or> in_literal ''jwt'' forbiddenUpdateAttributes"
    by (simp add: in_User_prototype_def User_prototype_def)
  have p4: "''email'' \<in> fst ` set ?kvs \<and>
            \<not> (in_User_prototype ''email'' \<or> in_literal ''email'' forbiddenUpdateAttributes) \<and>
            \<not> (False \<and> ''email'' = ''_fromStorage'')"
    by (simp add: in_User_prototype_def User_prototype_def Object_prototype_def in_literal_def
        forbiddenUpdateAttributes_def)
  have p5: "(1::nat) \<noteq> 0"
    by simp
  have before: "this_get ?w 0 ''token'' = Obj [(''access_token'', Str ''old'')]"
    "this_get ?w 0 ''api'' = test_api" "map_of (heap ?w 0) ''jwt'' = None" "heap ?w 1 = []"
    by (simp_all add: signed_in_def loaded_def this_get_def)
  have e: "get (Obj ?kvs) ''email'' = Str ''a@b.c''"
    by simp
  show ?thesis
    using merge_protects_and_copies[where k = "''token''" and w = ?w and this = 0
        and attributes = "Obj ?kvs" and fromStorage = False and kvs = ?kvs and a = 0]
      merge_protects_and_copies[where k = "''api''" and w = ?w and this = 0
        and attributes = "Obj ?kvs" and fromStorage = False and kvs = ?kvs and a = 0]
      merge_protects_and_copies[where k = "''jwt''" and w = ?w and this = 0
        and attributes = "Obj ?kvs" and fromStorage = False and kvs = ?kvs and a = 0]
      merge_protects_and_copies[where k = "''email''" and w = ?w and this = 0
        and attributes = "Obj ?kvs" and fromStorage = False and kvs = ?kvs and a = 1]
      p1 p2 p3 p4 p5 before e
    by metis
qed

section \<open>Properties of session recovery\<close>












section \<open>Properties of authenticated requests\<close>

text \<open>
  Claim C9. The error that \<^verbatim>\<open>_request\<close> throws again is the error of \<^verbatim>\<open>jwt\<close> or of the
  transport, never a value. For a \<^verbatim>\<open>JSONHTTPError\<close> with a body, its message is the
  \<^verbatim>\<open>msg\<close> of the body when that is present (truthy), else the \<^verbatim>\<open>error\<close> of the body,
  when present, followed by a colon, a space and its \<^verbatim>\<open>error_description\<close>, else the
  message the transport gave; status and body stay. Every other error is thrown as it came.
  \<^verbatim>\<open>GoTrue._request\<close> does the same.
\<close>

theorem request_error_message_precedence:
  "catch_error P (JSONHTTPError message status json) =
     JSONHTTPError
       (if truthy json \<and> truthy (get json ''msg'') then get json ''msg''
        else if truthy json \<and> truthy (get json ''error'')
        then Str (ToString P (get json ''error'') @ '': '' @ ToString P (get json ''error_description''))
        else message)
       status json \<and>
   catch_error P (JSError name message) = JSError name message \<and>
   catch_error P (HTTPError message status) = HTTPError message status \<and>
   catch_error P (TextHTTPError message status data) = TextHTTPError message status data \<and>
   (jwt_outcome = Inl e \<longrightarrow>
      User_request P this path options jwt_outcome transport = Inl (catch_error P e)) \<and>
   (jwt_outcome = Inr token \<and> (\<forall>req. transport req = Inl e) \<longrightarrow>
      User_request P this path options jwt_outcome transport = Inl (catch_error P e)) \<and>
   ((\<forall>req. transport req = Inl e) \<longrightarrow>
      GoTrue_request P api audience path options transport = Inl (catch_error P e)) \<and>
   error_message
     (catch_error P
        (JSONHTTPError message status
           (Obj [(''error'', Str ''invalid_grant''),
                 (''error_description'', Str ''Invalid credentials'')]))) =
     Str ''invalid_grant: Invalid credentials''"
  by (simp add: catch_error_def User_request_def GoTrue_request_def bindE_def Let_def)

theorem request_error_message_precedence_witness:
  "User_request test_platform [(''audience'', Str [])] ''/user''
     \<lparr>opt_method = None, opt_headers = None, opt_body = None, opt_audience = None\<rparr>
     (Inr (Str ''access''))
     (\<lambda>req. Inl (JSONHTTPError (Str ''Bad Request'') (Num (Fin 400))
                  (Obj [(''error'', Str ''invalid_grant''),
                        (''error_description'', Str ''Invalid credentials'')]))) =
   Inl (JSONHTTPError (Str ''invalid_grant: Invalid credentials'') (Num (Fin 400))
          (Obj [(''error'', Str ''invalid_grant''),
                (''error_description'', Str ''Invalid credentials'')])) \<and>
   User_request test_platform [(''audience'', Str [])] ''/user''
     \<lparr>opt_method = None, opt_headers = None, opt_body = None, opt_audience = None\<rparr>
     (Inl (JSONHTTPError (Str ''Unauthorized'') (Num (Fin 401))
             (Obj [(''msg'', Str ''Invalid token''), (''error'', Str ''x'')])))
     (\<lambda>req. Inr Null) =
   Inl (JSONHTTPError (Str ''Invalid token'') (Num (Fin 401))
          (Obj [(''msg'', Str ''Invalid token''), (''error'', Str ''x'')])) \<and>
   GoTrue_request test_platform test_api None ''/token''
     \<lparr>opt_method = None, opt_headers = None, opt_body = None, opt_audience = None\<rparr>
     (\<lambda>req. Inl (TextHTTPError (Str ''Bad Gateway'') (Num (Fin 502)) (Str ''upstream''))) =
   Inl (TextHTTPError (Str ''Bad Gateway'') (Num (Fin 502)) (Str ''upstream''))"
proof -
  let ?j = "JSONHTTPError (Str ''Bad Request'') (Num (Fin 400))
              (Obj [(''error'', Str ''invalid_grant''),
                    (''error_description'', Str ''Invalid credentials'')])"
  let ?k = "JSONHTTPError (Str ''Unauthorized'') (Num (Fin 401))
              (Obj [(''msg'', Str ''Invalid token''), (''error'', Str ''x'')])"
  let ?t = "TextHTTPError (Str ''Bad Gateway'') (Num (Fin 502)) (Str ''upstream'')"
  let ?o = "\<lparr>opt_method = None, opt_headers = None, opt_body = None, opt_audience = None\<rparr>"
  have a: "Inr (Str ''access'') = (Inr (Str ''access'') :: jserror + jsval) \<and>
           (\<forall>req::request. (\<lambda>req. Inl ?j :: jserror + jsval) req = Inl ?j)"
    by simp
  have b: "(Inl ?k :: jserror + jsval) = Inl ?k"
    by simp
  have c: "\<forall>req::request. (\<lambda>req. Inl ?t :: jserror + jsval) req = Inl ?t"
    by simp
  show ?thesis
    using
      request_error_message_precedence[where P = test_platform and jwt_outcome = "Inr (Str ''access'')"
        and token = "Str ''access''" and transport = "\<lambda>req. Inl ?j" and e = ?j
        and this = "[(''audience'', Str [])]" and path = "''/user''" and options = ?o
        and message = "Str ''Bad Request''" and status = "Num (Fin 400)"
        and json = "Obj [(''error'', Str ''invalid_grant''),
                         (''error_description'', Str ''Invalid credentials'')]"]
      request_error_message_precedence[where P = test_platform and jwt_outcome = "Inl ?k"
        and transport = "\<lambda>req. Inr Null" and e = ?k
        and this = "[(''audience'', Str [])]" and path = "''/user''" and options = ?o
        and message = "Str ''Unauthorized''" and status = "Num (Fin 401)"
        and json = "Obj [(''msg'', Str ''Invalid token''), (''error'', Str ''x'')]"]
      request_error_message_precedence[where P = test_platform
        and transport = "\<lambda>req. Inl ?t" and e = ?t and api = test_api and audience = None
        and path = "''/token''" and options = ?o
        and message = "Str ''Bad Gateway''" and status = "Num (Fin 502)" and data = "Str ''upstream''"]
      a b c
    by simp
qed


end
